theory Spec2Isabelle
  imports Main "HOL-Library.Word"
begin

section \<open>Strings of the host language\<close>

text \<open>
  The component is TypeScript. A string there is a sequence of 16-bit code units:
  \<^verbatim>\<open>s.length\<close> counts code units and \<^verbatim>\<open>===\<close> compares them one by one. Iterating a
  string (which is what the spread \<^verbatim>\<open>...s\<close> does) walks it by code points: a leading
  surrogate directly followed by a trailing surrogate is delivered as one two-unit string,
  every other code unit as a one-unit string.
\<close>

type_synonym code_unit = "16 word"

type_synonym jsstring = "code_unit list"

definition is_leading_surrogate :: "code_unit \<Rightarrow> bool" where
  "is_leading_surrogate u \<longleftrightarrow> 0xD800 \<le> u \<and> u \<le> 0xDBFF"

definition is_trailing_surrogate :: "code_unit \<Rightarrow> bool" where
  "is_trailing_surrogate u \<longleftrightarrow> 0xDC00 \<le> u \<and> u \<le> 0xDFFF"

fun string_iterator :: "jsstring \<Rightarrow> jsstring list" where
  "string_iterator [] = []"
| "string_iterator [u] = [[u]]"
| "string_iterator (u # v # rest) =
     (if is_leading_surrogate u \<and> is_trailing_surrogate v
      then [u, v] # string_iterator rest
      else [u] # string_iterator (v # rest))"

text \<open>Literals of the examples: a Latin-1 text as the string of its code units.\<close>

definition lit :: "string \<Rightarrow> jsstring" where
  "lit s = map of_char s"

section \<open>Data model\<close>

text \<open>
  \<^verbatim>\<open>type TChoiceGroupValue = string | string[] | null\<close> and
  \<^verbatim>\<open>type TChoiceGroupType = 'radio' | 'checkbox'\<close>.
\<close>

datatype TChoiceGroupValue = Null | Str jsstring | Arr "jsstring list"

datatype TChoiceGroupType = radio | checkbox

text \<open>
  Modelled from the spec: the declaration of \<^verbatim>\<open>ChoiceGroupItemProps\<close> lives in
  \<^verbatim>\<open>choice-group.types\<close>, which is not among the sources. The component reads two
  fields of an item, \<^verbatim>\<open>item.value\<close> (the key of the item, a string) and
  \<^verbatim>\<open>item.disabled\<close>; the flag may be absent, which is \<open>None\<close> here and which
  \<^verbatim>\<open>!item.disabled\<close> reads as not disabled.
\<close>

record ChoiceGroupItemProps =
  item_value :: jsstring
  disabled :: "bool option"

text \<open>
  The properties of \<^verbatim>\<open>ChoiceGroupProps\<close> that the selection logic reads. An optional
  property that was not passed is \<open>None\<close>. The callback \<^verbatim>\<open>onChange\<close> is opaque to the
  component: the model records whether it was passed, and every handler returns the list
  of arguments it was invoked with, in order.
\<close>

record ChoiceGroupProps =
  items :: "ChoiceGroupItemProps list"
  inputType :: "TChoiceGroupType option"
  value_prop :: "TChoiceGroupValue option"
  defaultValue :: "TChoiceGroupValue option"
  onChange :: bool

text \<open>\<^verbatim>\<open>inputType = 'radio'\<close> in the destructuring of the properties.\<close>

definition inputType_of :: "ChoiceGroupProps \<Rightarrow> TChoiceGroupType" where
  "inputType_of p = (case inputType p of None \<Rightarrow> radio | Some t \<Rightarrow> t)"

section \<open>Internal state and the current value\<close>

text \<open>
  Truthiness of a value of type \<^verbatim>\<open>TChoiceGroupValue\<close>: \<^verbatim>\<open>null\<close> and the empty string
  are falsy, every array (the empty one too) is truthy.
\<close>

fun truthy :: "TChoiceGroupValue \<Rightarrow> bool" where
  "truthy Null = False"
| "truthy (Str s) = (s \<noteq> [])"
| "truthy (Arr xs) = True"

text \<open>
  The initialiser of \<^verbatim>\<open>React.useState\<close>, run when the group is constructed:
  \<^verbatim>\<open>
  if (defaultValue) { return defaultValue; }
  else if (inputType === 'checkbox') { return []; }
  else { return null; }
  \<close>
\<close>

definition initial_innerValue :: "ChoiceGroupProps \<Rightarrow> TChoiceGroupValue" where
  "initial_innerValue p =
     (let fallback = (if inputType_of p = checkbox then Arr [] else Null) in
      case defaultValue p of
        None \<Rightarrow> fallback
      | Some d \<Rightarrow> if truthy d then d else fallback)"

text \<open>
  \<^verbatim>\<open>isValueControlled = (value = props.value) => !!onChange && typeof value !== 'undefined'\<close>.
  Both call sites pass \<^verbatim>\<open>props.value\<close> (one explicitly, the handlers by the default of
  the parameter).
\<close>

definition isValueControlled :: "ChoiceGroupProps \<Rightarrow> TChoiceGroupValue option \<Rightarrow> bool" where
  "isValueControlled p v \<longleftrightarrow> onChange p \<and> v \<noteq> None"

text \<open>\<^verbatim>\<open>currentValue = isValueControlled(value) ? value : innerValue\<close>.\<close>

definition currentValue :: "ChoiceGroupProps \<Rightarrow> TChoiceGroupValue \<Rightarrow> TChoiceGroupValue" where
  "currentValue p innerValue =
     (case value_prop p of
        Some v \<Rightarrow> if isValueControlled p (Some v) then v else innerValue
      | None \<Rightarrow> innerValue)"

section \<open>Derived state\<close>

text \<open>
  \<^verbatim>\<open>currentValue?.length\<close>: \<^verbatim>\<open>undefined\<close> (here \<open>None\<close>) for \<^verbatim>\<open>null\<close>, the number of code
  units of a string, the number of elements of an array.
\<close>

fun optional_length :: "TChoiceGroupValue \<Rightarrow> nat option" where
  "optional_length Null = None"
| "optional_length (Str s) = Some (length s)"
| "optional_length (Arr xs) = Some (length xs)"

text \<open>\<^verbatim>\<open>items?.filter((item) => !item.disabled)\<close>.\<close>

definition enabled_items :: "ChoiceGroupProps \<Rightarrow> ChoiceGroupItemProps list" where
  "enabled_items p = filter (\<lambda>item. disabled item \<noteq> Some True) (items p)"

text \<open>
  The three memoised flags. Each is a function of its dependency list alone, so the
  memoisation does not show. Strict equality with \<^verbatim>\<open>undefined\<close> on the left is false.
\<close>

definition isNoneSelected :: "ChoiceGroupProps \<Rightarrow> TChoiceGroupValue \<Rightarrow> bool" where
  "isNoneSelected p innerValue \<longleftrightarrow> optional_length (currentValue p innerValue) = Some 0"

definition isAllSelected :: "ChoiceGroupProps \<Rightarrow> TChoiceGroupValue \<Rightarrow> bool" where
  "isAllSelected p innerValue \<longleftrightarrow>
     optional_length (currentValue p innerValue) = Some (length (enabled_items p))"

definition isSomeSelected :: "ChoiceGroupProps \<Rightarrow> TChoiceGroupValue \<Rightarrow> bool" where
  "isSomeSelected p innerValue \<longleftrightarrow> \<not> isNoneSelected p innerValue \<and> \<not> isAllSelected p innerValue"

section \<open>Mutation handlers\<close>

text \<open>
  The value \<^verbatim>\<open>onChangeHandler(value, checked)\<close> computes:
  \<^verbatim>\<open>
  let nextValue = currentValue;
  if (inputType === 'checkbox' && Array.isArray(nextValue)) {
    if (checked) { nextValue = [...nextValue, ...value]; }
    else { nextValue = nextValue.filter((item) => item !== value); }
  } else { nextValue = value; }
  \<close>
  The second spread is over the string \<^verbatim>\<open>value\<close>.
\<close>

definition onChange_nextValue ::
  "ChoiceGroupProps \<Rightarrow> TChoiceGroupValue \<Rightarrow> jsstring \<Rightarrow> bool \<Rightarrow> TChoiceGroupValue" where
  "onChange_nextValue p innerValue v checked =
     (case currentValue p innerValue of
        Arr nextValue \<Rightarrow>
          if inputType_of p = checkbox
          then (if checked then Arr (nextValue @ string_iterator v)
                else Arr (filter (\<lambda>item. item \<noteq> v) nextValue))
          else Str v
      | _ \<Rightarrow> Str v)"

text \<open>
  The tail both handlers share:
  \<^verbatim>\<open>
  if (!isValueControlled()) { setInnerValue(...nextValue, copied when an array...); }
  onChange?.(nextValue);
  \<close>
  The result is the internal state after the handler and the invocations of the callback.
\<close>

definition propagate ::
  "ChoiceGroupProps \<Rightarrow> TChoiceGroupValue \<Rightarrow> TChoiceGroupValue
     \<Rightarrow> TChoiceGroupValue \<times> TChoiceGroupValue list" where
  "propagate p innerValue nextValue =
     (if \<not> isValueControlled p (value_prop p) then nextValue else innerValue,
      if onChange p then [nextValue] else [])"

definition onChangeHandler ::
  "ChoiceGroupProps \<Rightarrow> TChoiceGroupValue \<Rightarrow> jsstring \<Rightarrow> bool
     \<Rightarrow> TChoiceGroupValue \<times> TChoiceGroupValue list" where
  "onChangeHandler p innerValue v checked =
     propagate p innerValue (onChange_nextValue p innerValue v checked)"

text \<open>
  \<^verbatim>\<open>
  const nextValue = !isAllSelected
    ? items?.filter((item) => !item.disabled)?.map((item) => item.value) : [];
  \<close>
  The handler receives \<^verbatim>\<open>(value, checked)\<close> from the aggregate check box and reads
  neither.
\<close>

definition onIndeterminate_nextValue ::
  "ChoiceGroupProps \<Rightarrow> TChoiceGroupValue \<Rightarrow> TChoiceGroupValue" where
  "onIndeterminate_nextValue p innerValue =
     (if \<not> isAllSelected p innerValue then Arr (map item_value (enabled_items p)) else Arr [])"

definition onIndeterminateChangeHandler ::
  "ChoiceGroupProps \<Rightarrow> TChoiceGroupValue \<Rightarrow> jsstring \<Rightarrow> bool
     \<Rightarrow> TChoiceGroupValue \<times> TChoiceGroupValue list" where
  "onIndeterminateChangeHandler p innerValue v checked =
     propagate p innerValue (onIndeterminate_nextValue p innerValue)"

section \<open>Aggregate of the three flags\<close>

text \<open>The reading of "exactly one of three holds" used below.\<close>

definition exactly_one :: "bool \<Rightarrow> bool \<Rightarrow> bool \<Rightarrow> bool" where
  "exactly_one a b c \<longleftrightarrow> (a \<and> \<not> b \<and> \<not> c) \<or> (b \<and> \<not> a \<and> \<not> c) \<or> (c \<and> \<not> a \<and> \<not> b)"

section \<open>Example groups\<close>

text \<open>
  The items of the scenario in the specification: keys \<^verbatim>\<open>"a"\<close>, \<^verbatim>\<open>"b"\<close> and a disabled
  \<^verbatim>\<open>"c"\<close>; and a group over them with a given input type, \<^verbatim>\<open>value\<close> property and
  presence of the callback, with no \<^verbatim>\<open>defaultValue\<close>.
\<close>

definition abc_items :: "ChoiceGroupItemProps list" where
  "abc_items =
     [\<lparr>item_value = lit ''a'', disabled = None\<rparr>,
      \<lparr>item_value = lit ''b'', disabled = Some False\<rparr>,
      \<lparr>item_value = lit ''c'', disabled = Some True\<rparr>]"

definition abc_group ::
  "TChoiceGroupType \<Rightarrow> TChoiceGroupValue option \<Rightarrow> bool \<Rightarrow> ChoiceGroupProps" where
  "abc_group t v cb =
     \<lparr>items = abc_items, inputType = Some t, value_prop = v, defaultValue = None, onChange = cb\<rparr>"

text \<open>A group whose only item is disabled, and a group given only a default value.\<close>

definition all_disabled_group :: ChoiceGroupProps where
  "all_disabled_group =
     \<lparr>items = [\<lparr>item_value = lit ''c'', disabled = Some True\<rparr>], inputType = Some checkbox,
      value_prop = None, defaultValue = None, onChange = False\<rparr>"

definition default_group :: "TChoiceGroupType option \<Rightarrow> TChoiceGroupValue option \<Rightarrow> ChoiceGroupProps" where
  "default_group t d =
     \<lparr>items = abc_items, inputType = t, value_prop = None, defaultValue = d, onChange = False\<rparr>"

lemmas group_defs =
  abc_items_def abc_group_def all_disabled_group_def default_group_def lit_def
  is_leading_surrogate_def is_trailing_surrogate_def

lemmas model_defs =
  inputType_of_def initial_innerValue_def isValueControlled_def currentValue_def
  enabled_items_def isNoneSelected_def isAllSelected_def isSomeSelected_def
  onChange_nextValue_def propagate_def onChangeHandler_def
  onIndeterminate_nextValue_def onIndeterminateChangeHandler_def

section \<open>Iterating a string\<close>

lemma string_iterator_concat: "concat (string_iterator s) = s"
  by (induction s rule: string_iterator.induct) auto

lemma string_iterator_piece:
  "x \<in> set (string_iterator s) \<Longrightarrow>
     x \<noteq> [] \<and> length x \<le> length s \<and> (length x = length s \<longrightarrow> string_iterator s = [x])"
  by (induction s rule: string_iterator.induct) (auto split: if_splits)

text \<open>The strings that iterate as themselves are the strings of exactly one code point.\<close>

lemma string_iterator_single_iff:
  "string_iterator s = [s] \<longleftrightarrow>
     length s = 1 \<or> (\<exists>u v. s = [u, v] \<and> is_leading_surrogate u \<and> is_trailing_surrogate v)"
  by (induction s rule: string_iterator.induct) (auto split: if_splits)

lemma piece_differs:
  assumes "2 \<le> length (string_iterator s)" "x \<in> set (string_iterator s)"
  shows "x \<noteq> s"
proof
  assume "x = s"
  with assms(2) string_iterator_piece [of x s] have "string_iterator s = [x]" by simp
  with assms(1) show False by simp
qed

section \<open>Reading the current value\<close>

lemma uncontrolled_current:
  "\<not> isValueControlled p (value_prop p) \<Longrightarrow> currentValue p innerValue = innerValue"
  by (auto simp add: currentValue_def split: option.splits)

lemma controlled_current:
  "isValueControlled p (value_prop p) \<Longrightarrow> value_prop p = Some (currentValue p innerValue)"
  by (auto simp add: currentValue_def isValueControlled_def split: option.splits)

section \<open>Toggling one item of a check box group\<close>

text \<open>
  What checking an item computes: the elements the iteration of the key delivers are
  appended, not the key. The two agree exactly for the keys of one code point.
\<close>

lemma toggle_on_value:
  assumes "inputType_of p = checkbox" "currentValue p innerValue = Arr xs"
  shows "onChange_nextValue p innerValue v True = Arr (xs @ string_iterator v)"
  using assms by (simp add: onChange_nextValue_def)

lemma toggle_on_appends_iff:
  assumes "inputType_of p = checkbox" "currentValue p innerValue = Arr xs"
  shows "onChange_nextValue p innerValue v True = Arr (xs @ [v]) \<longleftrightarrow> string_iterator v = [v]"
  using assms by (simp add: onChange_nextValue_def)

text \<open>
  C1. In a check box group whose current selection is an array,
  \<^verbatim>\<open>onChangeHandler(key, true)\<close> is to produce the previous selection with the key appended
  as one new element. The code spreads the key: from the empty selection, the key
  \<^verbatim>\<open>"ab"\<close> yields \<^verbatim>\<open>["a", "b"]\<close>, two elements neither of which is the key, and not
  \<^verbatim>\<open>["ab"]\<close>.
\<close>

theorem C1_toggle_on_spreads_key:
  "onChangeHandler (abc_group checkbox None True) (Arr []) (lit ''ab'') True
     = (Arr [lit ''a'', lit ''b''], [Arr [lit ''a'', lit ''b'']])
   \<and> Arr [lit ''a'', lit ''b''] \<noteq> Arr ([] @ [lit ''ab''])"
  by (simp add: model_defs group_defs)

text \<open>
  Checking and then unchecking the same item of an uncontrolled check box group: the
  unchecking filters the key out of the old selection and out of the pieces of the key.
\<close>

lemma round_trip_value:
  assumes "inputType_of p = checkbox" "\<not> isValueControlled p (value_prop p)"
  shows "fst (onChangeHandler p (fst (onChangeHandler p (Arr xs) v True)) v False)
           = Arr (filter (\<lambda>item. item \<noteq> v) xs @ filter (\<lambda>item. item \<noteq> v) (string_iterator v))"
  using assms
  by (simp add: onChangeHandler_def propagate_def onChange_nextValue_def uncontrolled_current)

text \<open>
  For a key that was not selected, the round trip restores the selection exactly when the
  key has at most one code point.
\<close>

lemma round_trip_iff:
  assumes "inputType_of p = checkbox" "\<not> isValueControlled p (value_prop p)" "v \<notin> set xs"
  shows "fst (onChangeHandler p (fst (onChangeHandler p (Arr xs) v True)) v False) = Arr xs
           \<longleftrightarrow> length (string_iterator v) \<le> 1"
proof -
  have keep: "filter (\<lambda>item. item \<noteq> v) xs = xs"
    using assms(3) by (auto simp add: filter_id_conv)
  show ?thesis
  proof (cases "2 \<le> length (string_iterator v)")
    case True
    then have "filter (\<lambda>item. item \<noteq> v) (string_iterator v) = string_iterator v"
      using piece_differs [of v] by (auto simp add: filter_id_conv)
    moreover from True have "string_iterator v \<noteq> []" by auto
    ultimately show ?thesis
      using True by (simp add: round_trip_value [OF assms(1,2)] keep)
  next
    case False
    then consider "string_iterator v = []" | x where "string_iterator v = [x]"
      by (cases "string_iterator v") (auto simp add: length_Suc_conv not_le less_Suc_eq_le)
    then show ?thesis
    proof cases
      case 1
      then show ?thesis by (simp add: round_trip_value [OF assms(1,2)] keep)
    next
      case 2
      with string_iterator_concat [of v] have "x = v" by simp
      with 2 show ?thesis by (simp add: round_trip_value [OF assms(1,2)] keep)
    qed
  qed
qed

text \<open>
  C2. In a check box group with no duplicate key, toggling an item on and then off is to
  return the selection to its prior value. In the uncontrolled group over the empty
  selection, toggling \<^verbatim>\<open>"ab"\<close> on and then off leaves \<^verbatim>\<open>["a", "b"]\<close>: the pieces that the
  spread appended are not the key, so the filter keeps them.
\<close>

theorem C2_round_trip_fails:
  "fst (onChangeHandler (abc_group checkbox None True)
         (fst (onChangeHandler (abc_group checkbox None True) (Arr []) (lit ''ab'') True))
         (lit ''ab'') False) = Arr [lit ''a'', lit ''b'']
   \<and> Arr [lit ''a'', lit ''b''] \<noteq> Arr []"
  by (simp add: model_defs group_defs)

text \<open>
  C10. In a check box group whose current selection is an array,
  \<^verbatim>\<open>onChangeHandler(key, false)\<close> computes the selection without any occurrence of the
  key: the next value is the array filtered by \<^verbatim>\<open>item !== key\<close>, of which the key is
  not a member however often it occurred, and that value is what is committed and notified.
\<close>

theorem C10_toggle_off_removes_all:
  assumes "inputType_of p = checkbox" "currentValue p innerValue = Arr xs"
  shows "onChange_nextValue p innerValue key False = Arr (filter (\<lambda>item. item \<noteq> key) xs)
       \<and> key \<notin> set (filter (\<lambda>item. item \<noteq> key) xs)
       \<and> onChangeHandler p innerValue key False
           = propagate p innerValue (Arr (filter (\<lambda>item. item \<noteq> key) xs))"
  using assms by (simp add: onChangeHandler_def onChange_nextValue_def)

text \<open>
  An instance: the key \<^verbatim>\<open>"a"\<close> occurs twice in \<^verbatim>\<open>["a", "b", "a"]\<close> and both
  occurrences go.
\<close>

theorem C10_toggle_off_removes_all_witness:
  "inputType_of (abc_group checkbox None True) = checkbox
   \<and> currentValue (abc_group checkbox None True) (Arr [lit ''a'', lit ''b'', lit ''a''])
        = Arr [lit ''a'', lit ''b'', lit ''a'']
   \<and> onChangeHandler (abc_group checkbox None True) (Arr [lit ''a'', lit ''b'', lit ''a''])
        (lit ''a'') False = (Arr [lit ''b''], [Arr [lit ''b'']])
   \<and> lit ''a'' \<notin> set [lit ''b'']"
proof -
  have mode: "inputType_of (abc_group checkbox None True) = checkbox"
    by (simp add: inputType_of_def abc_group_def)
  have cur: "currentValue (abc_group checkbox None True) (Arr [lit ''a'', lit ''b'', lit ''a''])
               = Arr [lit ''a'', lit ''b'', lit ''a'']"
    by (simp add: currentValue_def abc_group_def)
  have tail: "propagate (abc_group checkbox None True) i n = (n, [n])" for i n
    by (simp add: propagate_def isValueControlled_def abc_group_def)
  show ?thesis
    using C10_toggle_off_removes_all [OF mode cur, of "lit ''a''"] mode cur
    by (simp add: tail lit_def)
qed

section \<open>Radio groups\<close>

lemma radio_nextValue:
  "inputType_of p = radio \<Longrightarrow> onChange_nextValue p innerValue v checked = Str v"
  by (simp add: onChange_nextValue_def split: TChoiceGroupValue.splits)

text \<open>
  C5. In a radio group \<^verbatim>\<open>onChangeHandler(key, checked)\<close> makes the next selection the key
  alone, whatever \<^verbatim>\<open>checked\<close> is. Selecting \<^verbatim>\<open>b\<close> after \<^verbatim>\<open>a\<close> (the group rendered again
  in between, so that the second call reads the state the first one left) notifies
  \<^verbatim>\<open>b\<close> alone, and in an uncontrolled group leaves the selection equal to \<^verbatim>\<open>b\<close>.
\<close>

theorem C5_radio_replaces:
  assumes "inputType_of p = radio"
  shows "onChangeHandler p innerValue key checked = propagate p innerValue (Str key)
       \<and> onChangeHandler p innerValue key True = onChangeHandler p innerValue key False
       \<and> snd (onChangeHandler p (fst (onChangeHandler p innerValue a ca)) b cb)
            = (if onChange p then [Str b] else [])
       \<and> (\<not> isValueControlled p (value_prop p) \<longrightarrow>
            fst (onChangeHandler p (fst (onChangeHandler p innerValue a ca)) b cb) = Str b)"
  using assms by (simp add: onChangeHandler_def radio_nextValue propagate_def)

text \<open>
  An instance: an uncontrolled radio group with a callback, first from the selection
  \<^verbatim>\<open>"a"\<close> with \<^verbatim>\<open>checked = false\<close>, then \<^verbatim>\<open>"a"\<close> followed by \<^verbatim>\<open>"b"\<close> from nothing selected.
\<close>

theorem C5_radio_replaces_witness:
  "inputType_of (abc_group radio None True) = radio
   \<and> \<not> isValueControlled (abc_group radio None True) (value_prop (abc_group radio None True))
   \<and> onChangeHandler (abc_group radio None True) (Str (lit ''a'')) (lit ''b'') False
        = (Str (lit ''b''), [Str (lit ''b'')])
   \<and> fst (onChangeHandler (abc_group radio None True)
        (fst (onChangeHandler (abc_group radio None True) Null (lit ''a'') True)) (lit ''b'') True)
        = Str (lit ''b'')"
proof -
  have mode: "inputType_of (abc_group radio None True) = radio"
    by (simp add: inputType_of_def abc_group_def)
  have unc: "\<not> isValueControlled (abc_group radio None True) (value_prop (abc_group radio None True))"
    by (simp add: isValueControlled_def abc_group_def)
  have cb: "onChange (abc_group radio None True)"
    by (simp add: abc_group_def)
  show ?thesis
    using C5_radio_replaces [OF mode, of "Str (lit ''a'')" "lit ''b''" False "lit ''a''" True "lit ''b''" True]
          C5_radio_replaces [OF mode, of Null "lit ''b''" False "lit ''a''" True "lit ''b''" True]
          mode unc cb
    by (simp add: propagate_def)
qed

section \<open>Who owns the value\<close>

text \<open>
  C6. In a controlled group (the callback is present and \<^verbatim>\<open>value\<close> is not
  \<^verbatim>\<open>undefined\<close>) either handler leaves the internal state as it was and invokes
  \<^verbatim>\<open>onChange\<close> exactly once, with the next value it computed.
\<close>

theorem C6_controlled_frame:
  assumes "onChange p" "value_prop p \<noteq> None"
  shows "onChangeHandler p innerValue key checked
           = (innerValue, [onChange_nextValue p innerValue key checked])
       \<and> onIndeterminateChangeHandler p innerValue v checked'
           = (innerValue, [onIndeterminate_nextValue p innerValue])"
  using assms
  by (simp add: onChangeHandler_def onIndeterminateChangeHandler_def propagate_def
        isValueControlled_def)

text \<open>
  An instance: a controlled check box group with \<^verbatim>\<open>value = ["a"]\<close> over an internal
  state \<^verbatim>\<open>[]\<close>.
\<close>

theorem C6_controlled_frame_witness:
  "onChange (abc_group checkbox (Some (Arr [lit ''a''])) True)
   \<and> value_prop (abc_group checkbox (Some (Arr [lit ''a''])) True) \<noteq> None
   \<and> onChangeHandler (abc_group checkbox (Some (Arr [lit ''a''])) True) (Arr []) (lit ''b'') True
        = (Arr [], [Arr [lit ''a'', lit ''b'']])
   \<and> onIndeterminateChangeHandler (abc_group checkbox (Some (Arr [lit ''a''])) True) (Arr [])
        (lit ''indeterminate'') True = (Arr [], [Arr [lit ''a'', lit ''b'']])"
proof -
  have cb: "onChange (abc_group checkbox (Some (Arr [lit ''a''])) True)"
    by (simp add: abc_group_def)
  have val: "value_prop (abc_group checkbox (Some (Arr [lit ''a''])) True) \<noteq> None"
    by (simp add: abc_group_def)
  have n1: "onChange_nextValue (abc_group checkbox (Some (Arr [lit ''a''])) True) (Arr [])
              (lit ''b'') True = Arr [lit ''a'', lit ''b'']"
    by (simp add: model_defs group_defs)
  have n2: "onIndeterminate_nextValue (abc_group checkbox (Some (Arr [lit ''a''])) True) (Arr [])
              = Arr [lit ''a'', lit ''b'']"
    by (simp add: model_defs group_defs)
  show ?thesis
    using C6_controlled_frame [OF cb val, of "Arr []" "lit ''b''" True "lit ''indeterminate''" True]
          cb val
    by (simp add: n1 n2)
qed

text \<open>
  C8. With a callback but no \<^verbatim>\<open>value\<close>, or a \<^verbatim>\<open>value\<close> but no callback, the group is
  uncontrolled: the current value is the internal state, each handler commits the next
  value it computed to the internal state, and the callback, when there is one, is
  invoked with that same value.
\<close>

theorem C8_uncontrolled_commit:
  assumes "\<not> (onChange p \<and> value_prop p \<noteq> None)"
  shows "currentValue p innerValue = innerValue
       \<and> onChangeHandler p innerValue key checked
           = (onChange_nextValue p innerValue key checked,
              if onChange p then [onChange_nextValue p innerValue key checked] else [])
       \<and> onIndeterminateChangeHandler p innerValue v checked'
           = (onIndeterminate_nextValue p innerValue,
              if onChange p then [onIndeterminate_nextValue p innerValue] else [])"
proof -
  from assms have unc: "\<not> isValueControlled p (value_prop p)"
    by (simp add: isValueControlled_def)
  then show ?thesis
    by (simp add: onChangeHandler_def onIndeterminateChangeHandler_def propagate_def
          uncontrolled_current)
qed

text \<open>
  Two instances: a callback without a value, and a value without a callback (the value
  \<^verbatim>\<open>["b"]\<close> is not read: the handlers work from the internal \<^verbatim>\<open>["a"]\<close>).
\<close>

theorem C8_uncontrolled_commit_witness:
  "\<not> (onChange (abc_group checkbox None True) \<and> value_prop (abc_group checkbox None True) \<noteq> None)
   \<and> onChangeHandler (abc_group checkbox None True) (Arr [lit ''a'']) (lit ''b'') True
        = (Arr [lit ''a'', lit ''b''], [Arr [lit ''a'', lit ''b'']])
   \<and> \<not> (onChange (abc_group checkbox (Some (Arr [lit ''b''])) False)
          \<and> value_prop (abc_group checkbox (Some (Arr [lit ''b''])) False) \<noteq> None)
   \<and> onChangeHandler (abc_group checkbox (Some (Arr [lit ''b''])) False) (Arr [lit ''a''])
        (lit ''a'') False = (Arr [], [])
   \<and> onIndeterminateChangeHandler (abc_group checkbox (Some (Arr [lit ''b''])) False)
        (Arr [lit ''a'']) (lit ''indeterminate'') True = (Arr [lit ''a'', lit ''b''], [])"
proof -
  have h1: "\<not> (onChange (abc_group checkbox None True)
              \<and> value_prop (abc_group checkbox None True) \<noteq> None)"
    by (simp add: abc_group_def)
  have h2: "\<not> (onChange (abc_group checkbox (Some (Arr [lit ''b''])) False)
              \<and> value_prop (abc_group checkbox (Some (Arr [lit ''b''])) False) \<noteq> None)"
    by (simp add: abc_group_def)
  have n1: "onChange_nextValue (abc_group checkbox None True) (Arr [lit ''a'']) (lit ''b'') True
              = Arr [lit ''a'', lit ''b'']"
    by (simp add: model_defs group_defs)
  have n2: "onChange_nextValue (abc_group checkbox (Some (Arr [lit ''b''])) False)
              (Arr [lit ''a'']) (lit ''a'') False = Arr []"
    by (simp add: model_defs group_defs)
  have n3: "onIndeterminate_nextValue (abc_group checkbox (Some (Arr [lit ''b''])) False)
              (Arr [lit ''a'']) = Arr [lit ''a'', lit ''b'']"
    by (simp add: model_defs group_defs)
  have cbs: "onChange (abc_group checkbox None True)"
    "\<not> onChange (abc_group checkbox (Some (Arr [lit ''b''])) False)"
    by (simp_all add: abc_group_def)
  show ?thesis
    using C8_uncontrolled_commit [OF h1, of "Arr [lit ''a'']" "lit ''b''" True "lit ''x''" True]
          C8_uncontrolled_commit [OF h2, of "Arr [lit ''a'']" "lit ''a''" False
            "lit ''indeterminate''" True]
          h1 h2
    by (simp add: n1 n2 n3 cbs)
qed

section \<open>The initial internal state\<close>

text \<open>
  C9, as stated: the internal state is seeded from \<^verbatim>\<open>defaultValue\<close> whenever one is
  given. The initialiser tests the truthiness of \<^verbatim>\<open>defaultValue\<close>: a check box group given
  \<^verbatim>\<open>defaultValue = null\<close> starts from \<^verbatim>\<open>[]\<close>, and a radio group given the empty string
  starts from \<^verbatim>\<open>null\<close>.
\<close>

theorem C9_counterexample:
  "defaultValue (default_group (Some checkbox) (Some Null)) = Some Null
   \<and> initial_innerValue (default_group (Some checkbox) (Some Null)) = Arr []
   \<and> Arr [] \<noteq> Null
   \<and> defaultValue (default_group (Some radio) (Some (Str []))) = Some (Str [])
   \<and> initial_innerValue (default_group (Some radio) (Some (Str []))) = Null
   \<and> Null \<noteq> Str []"
  by (simp add: model_defs group_defs)

text \<open>
  C9, amended. The internal state is seeded from \<^verbatim>\<open>defaultValue\<close> whenever that is
  truthy, which is to say an array (the empty one too) or a non-empty string. When
  \<^verbatim>\<open>defaultValue\<close> is absent, \<^verbatim>\<open>null\<close> or the empty string, the state is seeded with
  \<^verbatim>\<open>[]\<close> in a check box group and with \<^verbatim>\<open>null\<close> in a radio group.
\<close>

theorem C9_seed:
  "(\<forall>d. defaultValue p = Some d \<and> truthy d \<longrightarrow> initial_innerValue p = d)
   \<and> (defaultValue p = None \<or> defaultValue p = Some Null \<or> defaultValue p = Some (Str []) \<longrightarrow>
        initial_innerValue p = (if inputType_of p = checkbox then Arr [] else Null))
   \<and> (\<forall>d. truthy d \<longleftrightarrow> (\<exists>xs. d = Arr xs) \<or> (\<exists>s. d = Str s \<and> s \<noteq> []))"
proof -
  have "truthy d \<longleftrightarrow> (\<exists>xs. d = Arr xs) \<or> (\<exists>s. d = Str s \<and> s \<noteq> [])" for d
    by (cases d) simp_all
  then show ?thesis
    by (auto simp add: initial_innerValue_def)
qed

text \<open>
  Instances: the defaults \<^verbatim>\<open>[]\<close> and \<^verbatim>\<open>"a"\<close> are kept; no default gives \<^verbatim>\<open>[]\<close> or
  \<^verbatim>\<open>null\<close> by input type (radio when that is not given either); the empty string gives
  way to \<^verbatim>\<open>[]\<close>.
\<close>

theorem C9_seed_witness:
  "truthy (Arr [])
   \<and> initial_innerValue (default_group None (Some (Arr []))) = Arr []
   \<and> initial_innerValue (default_group None (Some (Str (lit ''a'')))) = Str (lit ''a'')
   \<and> initial_innerValue (default_group (Some checkbox) None) = Arr []
   \<and> initial_innerValue (default_group None None) = Null
   \<and> initial_innerValue (default_group (Some checkbox) (Some (Str []))) = Arr []"
proof -
  have d: "defaultValue (default_group t x) = x" for t x
    by (simp add: default_group_def)
  have m: "inputType_of (default_group None x) = radio"
    "inputType_of (default_group (Some checkbox) x) = checkbox" for x
    by (simp_all add: default_group_def inputType_of_def)
  have t: "truthy (Str (lit ''a''))" by (simp add: lit_def)
  show ?thesis
    using C9_seed [of "default_group None (Some (Arr []))"]
          C9_seed [of "default_group None (Some (Str (lit ''a'')))"]
          C9_seed [of "default_group (Some checkbox) None"]
          C9_seed [of "default_group None None"]
          C9_seed [of "default_group (Some checkbox) (Some (Str []))"] t
    by (simp add: d m)
qed

section \<open>None, some, all\<close>

text \<open>
  In a check box group a selection that is an array stays one under both handlers.
\<close>

lemma toggle_keeps_array:
  assumes "inputType_of p = checkbox" "currentValue p innerValue = Arr xs"
  shows "\<exists>ys. onChange_nextValue p innerValue v checked = Arr ys"
  using assms by (simp add: onChange_nextValue_def)

lemma aggregate_gives_array: "\<exists>ys. onIndeterminate_nextValue p innerValue = Arr ys"
  by (simp add: onIndeterminate_nextValue_def)

text \<open>
  C3, as stated: in every reachable state of a check box group exactly one of
  \<^verbatim>\<open>isNoneSelected\<close>, \<^verbatim>\<open>isSomeSelected\<close>, \<^verbatim>\<open>isAllSelected\<close> holds. In the initial state of
  a group whose only item is disabled the selection is empty and so is the set of items
  that count: \<^verbatim>\<open>isNoneSelected\<close> and \<^verbatim>\<open>isAllSelected\<close> both hold.
\<close>

theorem C3_counterexample:
  "\<not> exactly_one
       (isNoneSelected all_disabled_group (initial_innerValue all_disabled_group))
       (isSomeSelected all_disabled_group (initial_innerValue all_disabled_group))
       (isAllSelected all_disabled_group (initial_innerValue all_disabled_group))"
  by (simp add: model_defs group_defs exactly_one_def)

text \<open>
  C3, amended. For every selection that is an array: \<^verbatim>\<open>isAllSelected\<close> holds iff the size
  of the selection is the number of items that are not disabled, \<^verbatim>\<open>isNoneSelected\<close> iff
  the size is 0, \<^verbatim>\<open>isSomeSelected\<close> iff neither; and exactly one of the three holds
  unless the selection is empty and no item is enabled, where \<^verbatim>\<open>isNoneSelected\<close> and
  \<^verbatim>\<open>isAllSelected\<close> hold together.
\<close>

theorem C3_flags_of_array:
  assumes "currentValue p innerValue = Arr xs"
  shows "(isAllSelected p innerValue \<longleftrightarrow> length xs = length (enabled_items p))
       \<and> (isNoneSelected p innerValue \<longleftrightarrow> length xs = 0)
       \<and> (isSomeSelected p innerValue \<longleftrightarrow> length xs \<noteq> 0 \<and> length xs \<noteq> length (enabled_items p))
       \<and> (exactly_one (isNoneSelected p innerValue) (isSomeSelected p innerValue)
             (isAllSelected p innerValue) \<longleftrightarrow> \<not> (xs = [] \<and> enabled_items p = []))"
  using assms
  by (auto simp add: isAllSelected_def isNoneSelected_def isSomeSelected_def exactly_one_def)

text \<open>
  An instance: \<^verbatim>\<open>["a"]\<close> selected of the two enabled items \<^verbatim>\<open>a\<close>, \<^verbatim>\<open>b\<close>.
\<close>

theorem C3_flags_of_array_witness:
  "currentValue (abc_group checkbox None True) (Arr [lit ''a'']) = Arr [lit ''a'']
   \<and> \<not> isAllSelected (abc_group checkbox None True) (Arr [lit ''a''])
   \<and> \<not> isNoneSelected (abc_group checkbox None True) (Arr [lit ''a''])
   \<and> isSomeSelected (abc_group checkbox None True) (Arr [lit ''a''])
   \<and> exactly_one (isNoneSelected (abc_group checkbox None True) (Arr [lit ''a'']))
        (isSomeSelected (abc_group checkbox None True) (Arr [lit ''a'']))
        (isAllSelected (abc_group checkbox None True) (Arr [lit ''a'']))"
proof -
  have cur: "currentValue (abc_group checkbox None True) (Arr [lit ''a'']) = Arr [lit ''a'']"
    by (simp add: currentValue_def abc_group_def)
  have en: "length (enabled_items (abc_group checkbox None True)) = 2"
    by (simp add: enabled_items_def abc_group_def abc_items_def)
  from C3_flags_of_array [OF cur] en cur show ?thesis
    by auto
qed

text \<open>
  C7, as stated: a \<^verbatim>\<open>null\<close> selection counts as zero selected like the empty array, so
  that \<^verbatim>\<open>isNoneSelected\<close> holds for \<^verbatim>\<open>null\<close> in a radio group. A radio group starts from
  \<^verbatim>\<open>null\<close>, and there \<^verbatim>\<open>isNoneSelected\<close> is false, while it is true in the initial
  state \<^verbatim>\<open>[]\<close> of a check box group.
\<close>

theorem C7_counterexample:
  "currentValue (abc_group radio None False) (initial_innerValue (abc_group radio None False)) = Null
   \<and> \<not> isNoneSelected (abc_group radio None False) (initial_innerValue (abc_group radio None False))
   \<and> currentValue (abc_group checkbox None False) (initial_innerValue (abc_group checkbox None False)) = Arr []
   \<and> isNoneSelected (abc_group checkbox None False) (initial_innerValue (abc_group checkbox None False))"
  by (simp add: model_defs group_defs)

text \<open>
  C7, amended. \<^verbatim>\<open>isNoneSelected\<close> holds exactly for the empty array and the empty
  string. A \<^verbatim>\<open>null\<close> selection has no length (\<^verbatim>\<open>currentValue?.length\<close> is
  \<^verbatim>\<open>undefined\<close>), so for it \<^verbatim>\<open>isNoneSelected\<close> and \<^verbatim>\<open>isAllSelected\<close> are both false and
  \<^verbatim>\<open>isSomeSelected\<close> is true, in either mode.
\<close>

theorem C7_null_has_no_length:
  "(isNoneSelected p innerValue \<longleftrightarrow>
      currentValue p innerValue = Arr [] \<or> currentValue p innerValue = Str [])
   \<and> (currentValue p innerValue = Null \<longrightarrow>
        \<not> isNoneSelected p innerValue \<and> \<not> isAllSelected p innerValue \<and> isSomeSelected p innerValue)"
  by (cases "currentValue p innerValue")
     (simp_all add: isNoneSelected_def isAllSelected_def isSomeSelected_def)

text \<open>
  Instances: \<^verbatim>\<open>null\<close> in a radio group, \<^verbatim>\<open>[]\<close> in a check box group, the empty string
  in a radio group.
\<close>

theorem C7_null_has_no_length_witness:
  "currentValue (abc_group radio None False) Null = Null
   \<and> \<not> isNoneSelected (abc_group radio None False) Null
   \<and> \<not> isAllSelected (abc_group radio None False) Null
   \<and> isSomeSelected (abc_group radio None False) Null
   \<and> isNoneSelected (abc_group checkbox None False) (Arr [])
   \<and> isNoneSelected (abc_group radio None False) (Str [])"
proof -
  have cur: "currentValue (abc_group t None False) i = i" for t i
    by (simp add: currentValue_def abc_group_def)
  show ?thesis
    using C7_null_has_no_length [of "abc_group radio None False" Null]
          C7_null_has_no_length [of "abc_group checkbox None False" "Arr []"]
          C7_null_has_no_length [of "abc_group radio None False" "Str []"]
    by (simp add: cur)
qed

section \<open>The aggregate toggle\<close>

text \<open>
  C4. \<^verbatim>\<open>onIndeterminateChangeHandler\<close> computes the empty selection when
  \<^verbatim>\<open>isAllSelected\<close> holds, and otherwise (none or some selected) the keys of the items
  that are not disabled, in the order of the items, whatever was selected before: a key
  is in that value exactly when an item that is not disabled carries it. The value
  replaces the selection through the tail shared with the item handler.
\<close>

theorem C4_aggregate_toggle:
  "onIndeterminateChangeHandler p innerValue v checked
     = propagate p innerValue
         (if isAllSelected p innerValue then Arr []
          else Arr (map item_value (filter (\<lambda>item. disabled item \<noteq> Some True) (items p))))
   \<and> (isAllSelected p innerValue \<longrightarrow> onIndeterminate_nextValue p innerValue = Arr [])
   \<and> (\<not> isAllSelected p innerValue \<longrightarrow>
        (\<exists>keys. onIndeterminate_nextValue p innerValue = Arr keys
           \<and> keys = map item_value (filter (\<lambda>item. disabled item \<noteq> Some True) (items p))
           \<and> (\<forall>k. k \<in> set keys \<longleftrightarrow>
                 (\<exists>item \<in> set (items p). disabled item \<noteq> Some True \<and> item_value item = k))))"
  by (auto simp add: onIndeterminateChangeHandler_def onIndeterminate_nextValue_def enabled_items_def)

text \<open>
  Instances over the items \<^verbatim>\<open>a\<close>, \<^verbatim>\<open>b\<close> and the disabled \<^verbatim>\<open>c\<close>: from all selected,
  from some selected, from none selected.
\<close>

theorem C4_aggregate_toggle_witness:
  "isAllSelected (abc_group checkbox None True) (Arr [lit ''a'', lit ''b''])
   \<and> onIndeterminateChangeHandler (abc_group checkbox None True) (Arr [lit ''a'', lit ''b''])
        (lit ''indeterminate'') False = (Arr [], [Arr []])
   \<and> \<not> isAllSelected (abc_group checkbox None True) (Arr [lit ''b''])
   \<and> onIndeterminateChangeHandler (abc_group checkbox None True) (Arr [lit ''b''])
        (lit ''indeterminate'') True = (Arr [lit ''a'', lit ''b''], [Arr [lit ''a'', lit ''b'']])
   \<and> \<not> isAllSelected (abc_group checkbox None True) (Arr [])
   \<and> onIndeterminateChangeHandler (abc_group checkbox None True) (Arr [])
        (lit ''indeterminate'') True = (Arr [lit ''a'', lit ''b''], [Arr [lit ''a'', lit ''b'']])"
proof -
  have all: "isAllSelected (abc_group checkbox None True) (Arr [lit ''a'', lit ''b''])"
    by (simp add: model_defs abc_group_def abc_items_def)
  have some: "\<not> isAllSelected (abc_group checkbox None True) (Arr [lit ''b''])"
    by (simp add: model_defs abc_group_def abc_items_def)
  have none: "\<not> isAllSelected (abc_group checkbox None True) (Arr [])"
    by (simp add: model_defs abc_group_def abc_items_def)
  have tail: "propagate (abc_group checkbox None True) i n = (n, [n])" for i n
    by (simp add: propagate_def isValueControlled_def abc_group_def)
  have keys: "map item_value (filter (\<lambda>item. disabled item \<noteq> Some True)
                 (items (abc_group checkbox None True))) = [lit ''a'', lit ''b'']"
    by (simp add: abc_group_def abc_items_def)
  show ?thesis
    using C4_aggregate_toggle [of "abc_group checkbox None True" "Arr [lit ''a'', lit ''b'']"
            "lit ''indeterminate''" False]
          C4_aggregate_toggle [of "abc_group checkbox None True" "Arr [lit ''b'']"
            "lit ''indeterminate''" True]
          C4_aggregate_toggle [of "abc_group checkbox None True" "Arr []"
            "lit ''indeterminate''" True]
          all some none
    by (simp add: tail keys)
qed

section \<open>The scenario with one-letter keys\<close>

text \<open>
  An uncontrolled check box group over \<^verbatim>\<open>a\<close>, \<^verbatim>\<open>b\<close> and the disabled \<^verbatim>\<open>c\<close>, each step
  read after the group has rendered again: checking \<^verbatim>\<open>a\<close> gives \<^verbatim>\<open>["a"]\<close> and the state
  some, checking \<^verbatim>\<open>b\<close> gives \<^verbatim>\<open>["a", "b"]\<close> and the state all, the aggregate toggle gives
  \<^verbatim>\<open>[]\<close> and the state none. Keys of one code point do not show the spread.
\<close>

lemma scenario_first_toggle:
  "initial_innerValue (abc_group checkbox None False) = Arr []
   \<and> fst (onChangeHandler (abc_group checkbox None False) (Arr []) (lit ''a'') True)
        = Arr [lit ''a'']
   \<and> isSomeSelected (abc_group checkbox None False) (Arr [lit ''a''])"
  by (simp add: model_defs group_defs)

lemma scenario_second_toggle:
  "fst (onChangeHandler (abc_group checkbox None False) (Arr [lit ''a'']) (lit ''b'') True)
        = Arr [lit ''a'', lit ''b'']
   \<and> isAllSelected (abc_group checkbox None False) (Arr [lit ''a'', lit ''b''])"
  by (simp add: model_defs group_defs)

lemma scenario_aggregate_toggle:
  "fst (onIndeterminateChangeHandler (abc_group checkbox None False)
          (Arr [lit ''a'', lit ''b'']) (lit ''indeterminate'') False) = Arr []
   \<and> isNoneSelected (abc_group checkbox None False) (Arr [])"
  by (simp add: model_defs group_defs)

end
